theory Spec2Isabelle
  imports Complex_Main "HOL-Library.Sublist" "HOL-Library.Multiset"
begin

section \<open>Python values and errors\<close>

text \<open>
  The scripts under verification are \<^verbatim>\<open>cryptoBot1.py\<close> (the bot), \<^verbatim>\<open>CryptoBot.py\<close> (its
  first version) and \<^verbatim>\<open>testcryptodata.py\<close> (the local test script). Python numbers are
  modelled as exact reals: comparisons are exact on floats as well, rounding of float
  division and NaN are outside the model. A Python \<^verbatim>\<open>str\<close> is a \<^typ>\<open>string\<close> whose
  elements stand for the code points that \<^verbatim>\<open>len\<close> counts.
\<close>

datatype py_error =
    KeyError | TypeError | ZeroDivisionError | ValueError | OSError
  | RequestException | DatabaseError | NotModelled

datatype json =
    JNull | JBool bool | JNum real | JStr string
  | JArr "json list" | JObj "(string \<times> json) list"

text \<open>\<^verbatim>\<open>v[k]\<close> for a string key: only a dict has string keys.\<close>

fun getitem :: "json \<Rightarrow> string \<Rightarrow> py_error + json" where
  "getitem (JObj kvs) k = (case map_of kvs k of None \<Rightarrow> Inl KeyError | Some v \<Rightarrow> Inr v)"
| "getitem v k = Inl TypeError"

text \<open>Truthiness, as in \<^verbatim>\<open>if not data\<close>.\<close>

fun truthy :: "json \<Rightarrow> bool" where
  "truthy JNull = False"
| "truthy (JBool b) = b"
| "truthy (JNum x) = (x \<noteq> 0)"
| "truthy (JStr s) = (s \<noteq> [])"
| "truthy (JArr xs) = (xs \<noteq> [])"
| "truthy (JObj kvs) = (kvs \<noteq> [])"

text \<open>\<^verbatim>\<open>len(v)\<close>: defined on strings, lists and dicts, a TypeError elsewhere.\<close>

fun py_len :: "json \<Rightarrow> py_error + nat" where
  "py_len (JStr s) = Inr (length s)"
| "py_len (JArr xs) = Inr (length xs)"
| "py_len (JObj kvs) = Inr (length kvs)"
| "py_len v = Inl TypeError"

text \<open>\<^verbatim>\<open>for coin in data\<close>: a list yields its elements, a dict its keys, a string its characters.\<close>

fun py_iter :: "json \<Rightarrow> json list" where
  "py_iter (JArr xs) = xs"
| "py_iter (JObj kvs) = map (\<lambda>kv. JStr (fst kv)) kvs"
| "py_iter (JStr s) = map (\<lambda>c. JStr [c]) s"
| "py_iter v = []"

text \<open>A number in arithmetic and comparisons; \<^verbatim>\<open>bool\<close> is a subclass of \<^verbatim>\<open>int\<close>.\<close>

fun num_of :: "json \<Rightarrow> py_error + real" where
  "num_of (JNum x) = Inr x"
| "num_of (JBool b) = Inr (if b then 1 else 0)"
| "num_of v = Inl TypeError"

text \<open>\<^verbatim>\<open>range(start, stop, step)\<close> for a positive step, and the slice \<^verbatim>\<open>xs[i:j]\<close>.\<close>

definition py_range :: "nat \<Rightarrow> nat \<Rightarrow> nat \<Rightarrow> nat list" where
  "py_range start stop step =
     map (\<lambda>k. start + k * step) [0..<(stop - start + step - 1) div step]"

definition slice :: "'a list \<Rightarrow> nat \<Rightarrow> nat \<Rightarrow> 'a list" where
  "slice xs i j = take (j - i) (drop i xs)"

section \<open>The environment and the observable state\<close>

datatype request =
    SendMessage string
  | SendPhoto string string

text \<open>The text a request carries: the \<^verbatim>\<open>text\<close> of sendMessage, the \<^verbatim>\<open>caption\<close> of sendPhoto.\<close>

fun payload_text :: "request \<Rightarrow> string" where
  "payload_text (SendMessage t) = t"
| "payload_text (SendPhoto p c) = c"

datatype fetch_result =
    ConnectionFailed
  | HttpResponse nat "json option"

datatype log_line =
    FetchSkipped | SaveFailed | TelegramFailed py_error | LoopError py_error | UserStopped

record db_row =
  row_id :: json
  row_symbol :: json
  row_name :: json
  row_price :: json
  row_market_cap :: json
  row_volume_24h :: json
  row_percent_change_1h :: json
  row_percent_change_24h :: json
  row_percent_change_7d :: json
  row_timestamp :: string

text \<open>
  A row of the DataFrame built by \<^verbatim>\<open>convert_to_dataframe\<close>, with float columns, and the
  dict \<^verbatim>\<open>analysis_results\<close> of the six views (\<^verbatim>\<open>to_dict('records')\<close> of each).
\<close>

record row =
  coin_id :: json
  name :: json
  symbol :: json
  price :: json
  market_cap :: real
  volume_24h :: real
  percent_change_1h :: real
  percent_change_24h :: real
  percent_change_7d :: real
  volume_to_market_cap :: real

record analysis =
  top_gainers :: "(json \<times> real) list"
  top_losers :: "(json \<times> real) list"
  high_liquidity :: "(json \<times> real) list"
  high_volatility :: "(json \<times> real) list"
  strong_trends :: "(json \<times> real \<times> real) list"
  market_dominance :: "(json \<times> real) list"

record world =
  crypto_data :: "db_row list"
  analysis_rows :: "(string \<times> string \<times> json \<times> json) list"
  raw_files :: "(string \<times> json) list"
  sent :: "request list"
  slept :: "nat list"
  errors_logged :: "log_line list"

text \<open>
  What one cycle meets outside the program: the outcome of the HTTP GET (a response with its
  status and its body when it parses as JSON, or a connection failure), whether a POST to
  Telegram raises (it may depend on the requests made so far), the file system, the clock,
  whether SQLite accepts an insert, and whether Ctrl-C arrives during the sleep before the
  cycle. The f-strings that render numbers as text are functions of the environment too:
  float formatting is not modelled.
\<close>

record env =
  fetch :: fetch_result
  post_ok :: "request list \<Rightarrow> request \<Rightarrow> bool"
  path_exists :: "string \<Rightarrow> bool"
  open_ok :: "string \<Rightarrow> bool"
  archive_ok :: bool
  db_ok :: bool
  now_iso :: string
  now_stamp :: string
  chart_ok :: bool
  data_dir :: string
  fetch_interval :: nat
  interrupted :: bool
  insert_ok :: "db_row list \<Rightarrow> db_row \<Rightarrow> bool"
  analysis_insert_ok :: "(string \<times> string \<times> json \<times> json) list \<Rightarrow> bool"
  overview_text :: "row list \<Rightarrow> string"
  top_coins_text :: "row list \<Rightarrow> nat \<Rightarrow> string"
  analysis_text :: "analysis \<Rightarrow> string"
  alert_text :: "json \<Rightarrow> json \<Rightarrow> bool \<Rightarrow> real \<Rightarrow> string"
  price_line :: "json \<Rightarrow> json \<Rightarrow> json \<Rightarrow> py_error + string"

section \<open>The Notifier: \<^verbatim>\<open>send_message_to_telegram\<close>\<close>

text \<open>\<^verbatim>\<open>requests.post\<close>: the attempt is observable whether or not it raises.\<close>

definition post :: "env \<Rightarrow> request \<Rightarrow> world \<Rightarrow> bool \<times> world" where
  "post e r w = (post_ok e (sent w) r, w\<lparr>sent := sent w @ [r]\<rparr>)"

text \<open>The loop \<^verbatim>\<open>for chunk in chunks: requests.post(...)\<close>; an exception leaves the loop.\<close>

fun post_each :: "env \<Rightarrow> string list \<Rightarrow> world \<Rightarrow> bool \<times> world" where
  "post_each e [] w = (True, w)"
| "post_each e (c # cs) w =
     (case post e (SendMessage c) w of
        (True, w') \<Rightarrow> post_each e cs w'
      | (False, w') \<Rightarrow> (False, w'))"

definition chunks :: "string \<Rightarrow> string list" where
  "chunks message = map (\<lambda>i. slice message i (i + 4000)) (py_range 0 (length message) 4000)"

text \<open>The \<^verbatim>\<open>else\<close> branch of \<^verbatim>\<open>send_message_to_telegram\<close>: text only.\<close>

definition send_text :: "env \<Rightarrow> string \<Rightarrow> world \<Rightarrow> bool \<times> world" where
  "send_text e message w =
     (if length message > 4000 then post_each e (chunks message) w
      else post e (SendMessage message) w)"

text \<open>
  The outer \<^verbatim>\<open>try\<close> turns any exception into the result \<^verbatim>\<open>False\<close>. The recursive call
  for the rest of a long caption has a \<^verbatim>\<open>try\<close> of its own and its result is dropped.
\<close>

definition finish :: "bool \<times> world \<Rightarrow> bool \<times> world" where
  "finish r = (case r of
       (True, w) \<Rightarrow> (True, w)
     | (False, w) \<Rightarrow> (False, w\<lparr>errors_logged := errors_logged w @ [TelegramFailed RequestException]\<rparr>))"

fun send_message_to_telegram :: "env \<Rightarrow> string \<Rightarrow> string option \<Rightarrow> world \<Rightarrow> bool \<times> world" where
  "send_message_to_telegram e message None w = finish (send_text e message w)"
| "send_message_to_telegram e message (Some photo_path) w =
     (if photo_path \<noteq> [] \<and> path_exists e photo_path then
        (if \<not> open_ok e photo_path then
           (False, w\<lparr>errors_logged := errors_logged w @ [TelegramFailed OSError]\<rparr>)
         else
           (case post e (SendPhoto photo_path (slice message 0 1024)) w of
              (False, w') \<Rightarrow> finish (False, w')
            | (True, w') \<Rightarrow>
                (if length message > 1024
                 then (True, snd (send_message_to_telegram e (drop 1024 message) None w'))
                 else (True, w'))))
      else finish (send_text e message w))"

section \<open>The Fetcher: \<^verbatim>\<open>get_crypto_data\<close>\<close>

text \<open>
  Status 200 returns \<^verbatim>\<open>response.json()["data"]\<close>; every other status, a connection error
  and any exception on the way (a body that is not JSON, no key \<^verbatim>\<open>data\<close>, a value without
  \<^verbatim>\<open>len\<close>) return \<^verbatim>\<open>None\<close>.
\<close>

definition get_crypto_data :: "fetch_result \<Rightarrow> json option" where
  "get_crypto_data r =
     (case r of
        ConnectionFailed \<Rightarrow> None
      | HttpResponse status body \<Rightarrow>
          (if status = 200 then
             (case body of
                None \<Rightarrow> None
              | Some b \<Rightarrow>
                  (case getitem b ''data'' of
                     Inl err \<Rightarrow> None
                   | Inr d \<Rightarrow> (case py_len d of Inl err \<Rightarrow> None | Inr n \<Rightarrow> Some d)))
           else None))"

text \<open>\<^verbatim>\<open>not data\<close> for the value \<^verbatim>\<open>get_crypto_data\<close> returned.\<close>

definition no_data :: "json option \<Rightarrow> bool" where
  "no_data data = (case data of None \<Rightarrow> True | Some d \<Rightarrow> \<not> truthy d)"

section \<open>The Store: \<^verbatim>\<open>save_raw_data\<close>, \<^verbatim>\<open>save_data_to_db\<close>\<close>

text \<open>Sequencing of computations that may raise.\<close>

definition raising :: "py_error + 'a \<Rightarrow> ('a \<Rightarrow> py_error + 'b) \<Rightarrow> py_error + 'b" where
  "raising x f = (case x of Inl err \<Rightarrow> Inl err | Inr v \<Rightarrow> f v)"

text \<open>\<^verbatim>\<open>coin['quote']['USD'][k]\<close>\<close>

definition quote_usd :: "json \<Rightarrow> string \<Rightarrow> py_error + json" where
  "quote_usd coin k =
     raising (getitem coin ''quote'') (\<lambda>q. raising (getitem q ''USD'') (\<lambda>u. getitem u k))"

definition save_raw_data :: "env \<Rightarrow> json option \<Rightarrow> world \<Rightarrow> py_error option \<times> world" where
  "save_raw_data e data w =
     (case data of
        None \<Rightarrow> (None, w)
      | Some d \<Rightarrow>
          (if \<not> truthy d then (None, w)
           else if \<not> archive_ok e then (Some OSError, w)
           else (None, w\<lparr>raw_files := raw_files w @
                   [(data_dir e @ ''/crypto_data_'' @ now_stamp e @ ''.json'', d)]\<rparr>)))"

text \<open>The tuple of values of one \<^verbatim>\<open>INSERT INTO crypto_data\<close>.\<close>

definition db_values :: "json \<Rightarrow> string \<Rightarrow> py_error + db_row" where
  "db_values coin timestamp =
     raising (getitem coin ''id'') (\<lambda>i.
     raising (getitem coin ''symbol'') (\<lambda>s.
     raising (getitem coin ''name'') (\<lambda>n.
     raising (quote_usd coin ''price'') (\<lambda>p.
     raising (quote_usd coin ''market_cap'') (\<lambda>mc.
     raising (quote_usd coin ''volume_24h'') (\<lambda>v.
     raising (quote_usd coin ''percent_change_1h'') (\<lambda>c1.
     raising (quote_usd coin ''percent_change_24h'') (\<lambda>c24.
     raising (quote_usd coin ''percent_change_7d'') (\<lambda>c7.
       Inr \<lparr>row_id = i, row_symbol = s, row_name = n, row_price = p, row_market_cap = mc,
            row_volume_24h = v, row_percent_change_1h = c1, row_percent_change_24h = c24,
            row_percent_change_7d = c7, row_timestamp = timestamp\<rparr>)))))))))"

text \<open>
  The loop over the coins, on the rows inserted so far in the open transaction. An insert
  that raises is caught for that coin alone; the handler's own \<^verbatim>\<open>coin['symbol']\<close> is not
  protected.
\<close>

fun insert_coins :: "env \<Rightarrow> json list \<Rightarrow> db_row list \<Rightarrow> log_line list
    \<Rightarrow> py_error option \<times> db_row list \<times> log_line list" where
  "insert_coins e [] rows lg = (None, rows, lg)"
| "insert_coins e (coin # coins) rows lg =
     (case raising (db_values coin (now_iso e))
             (\<lambda>r. if insert_ok e rows r then Inr r else Inl DatabaseError) of
        Inr r \<Rightarrow> insert_coins e coins (rows @ [r]) lg
      | Inl err \<Rightarrow>
          (case getitem coin ''symbol'' of
             Inl err' \<Rightarrow> (Some err', rows, lg)
           | Inr s \<Rightarrow> insert_coins e coins rows (lg @ [SaveFailed])))"

text \<open>
  \<^verbatim>\<open>conn.commit()\<close> comes after the loop: an exception that leaves the loop leaves the
  table as it was.
\<close>

definition save_data_to_db :: "env \<Rightarrow> json option \<Rightarrow> world \<Rightarrow> py_error option \<times> world" where
  "save_data_to_db e data w =
     (case data of
        None \<Rightarrow> (None, w)
      | Some d \<Rightarrow>
          (if \<not> truthy d then (None, w)
           else if \<not> db_ok e then (Some DatabaseError, w)
           else (case insert_coins e (py_iter d) (crypto_data w) (errors_logged w) of
                   (Some err, rows, lg) \<Rightarrow> (Some err, w\<lparr>errors_logged := lg\<rparr>)
                 | (None, rows, lg) \<Rightarrow>
                     (None, w\<lparr>crypto_data := rows, errors_logged := lg\<rparr>))))"

section \<open>The snapshot: \<^verbatim>\<open>convert_to_dataframe\<close>\<close>

definition py_div :: "real \<Rightarrow> real \<Rightarrow> py_error + real" where
  "py_div a b = (if b = 0 then Inl ZeroDivisionError else Inr (a / b))"

text \<open>
  \<^verbatim>\<open>volume_24h / market_cap if market_cap > 0 else 0\<close>: the condition is evaluated first, the
  division only when it holds.
\<close>

definition volume_to_market_cap_expr :: "json \<Rightarrow> json \<Rightarrow> py_error + real" where
  "volume_to_market_cap_expr vol mc =
     raising (num_of mc) (\<lambda>m.
       if m > 0 then raising (num_of vol) (\<lambda>v. py_div v m) else Inr 0)"

record coin_data =
  cd_id :: json
  cd_name :: json
  cd_symbol :: json
  cd_price :: json
  cd_market_cap :: json
  cd_volume_24h :: json
  cd_percent_change_1h :: json
  cd_percent_change_24h :: json
  cd_percent_change_7d :: json
  cd_volume_to_market_cap :: real

text \<open>The dict literal \<^verbatim>\<open>coin_data\<close>, its values evaluated in the order written.\<close>

definition convert_coin :: "json \<Rightarrow> py_error + coin_data" where
  "convert_coin coin =
     raising (getitem coin ''id'') (\<lambda>i.
     raising (getitem coin ''name'') (\<lambda>n.
     raising (getitem coin ''symbol'') (\<lambda>s.
     raising (quote_usd coin ''price'') (\<lambda>p.
     raising (quote_usd coin ''market_cap'') (\<lambda>mc.
     raising (quote_usd coin ''volume_24h'') (\<lambda>v.
     raising (quote_usd coin ''percent_change_1h'') (\<lambda>c1.
     raising (quote_usd coin ''percent_change_24h'') (\<lambda>c24.
     raising (quote_usd coin ''percent_change_7d'') (\<lambda>c7.
     raising (volume_to_market_cap_expr v mc) (\<lambda>ratio.
       Inr \<lparr>cd_id = i, cd_name = n, cd_symbol = s, cd_price = p, cd_market_cap = mc,
            cd_volume_24h = v, cd_percent_change_1h = c1, cd_percent_change_24h = c24,
            cd_percent_change_7d = c7, cd_volume_to_market_cap = ratio\<rparr>))))))))))"

text \<open>The loop \<^verbatim>\<open>for coin in data\<close> of \<^verbatim>\<open>convert_to_dataframe\<close>: it has no \<^verbatim>\<open>try\<close>.\<close>

fun convert_coins :: "json list \<Rightarrow> coin_data list \<Rightarrow> py_error + coin_data list" where
  "convert_coins [] processed_data = Inr processed_data"
| "convert_coins (coin # coins) processed_data =
     (case convert_coin coin of
        Inl err \<Rightarrow> Inl err
      | Inr cd \<Rightarrow> convert_coins coins (processed_data @ [cd]))"

text \<open>
  \<^verbatim>\<open>pd.DataFrame(processed_data)\<close> where every numeric cell is a number. What pandas makes
  of other cells (NaN, object columns) is not modelled: the frame is then \<open>NotModelled\<close>.
\<close>

fun cell :: "json \<Rightarrow> py_error + real" where
  "cell (JNum x) = Inr x"
| "cell v = Inl NotModelled"

definition frame_row :: "coin_data \<Rightarrow> py_error + row" where
  "frame_row cd =
     raising (cell (cd_market_cap cd)) (\<lambda>mc.
     raising (cell (cd_volume_24h cd)) (\<lambda>v.
     raising (cell (cd_percent_change_1h cd)) (\<lambda>c1.
     raising (cell (cd_percent_change_24h cd)) (\<lambda>c24.
     raising (cell (cd_percent_change_7d cd)) (\<lambda>c7.
       Inr \<lparr>coin_id = cd_id cd, name = cd_name cd, symbol = cd_symbol cd, price = cd_price cd,
            market_cap = mc, volume_24h = v, percent_change_1h = c1,
            percent_change_24h = c24, percent_change_7d = c7,
            volume_to_market_cap = cd_volume_to_market_cap cd\<rparr>)))))"

fun DataFrame :: "coin_data list \<Rightarrow> py_error + row list" where
  "DataFrame [] = Inr []"
| "DataFrame (cd # cds) =
     raising (frame_row cd) (\<lambda>r. raising (DataFrame cds) (\<lambda>rs. Inr (r # rs)))"

definition convert_to_dataframe :: "json option \<Rightarrow> py_error + row list option" where
  "convert_to_dataframe data =
     (case data of
        None \<Rightarrow> Inr None
      | Some d \<Rightarrow>
          (if \<not> truthy d then Inr None
           else raising (convert_coins (py_iter d) [])
                  (\<lambda>processed_data.
                     raising (DataFrame processed_data) (\<lambda>df. Inr (Some df)))))"

section \<open>The Analyzer: \<^verbatim>\<open>analyze_market_data\<close>\<close>

text \<open>
  \<^verbatim>\<open>DataFrame.nlargest(n, col)\<close> and \<^verbatim>\<open>nsmallest\<close> of pandas with the default
  \<^verbatim>\<open>keep='first'\<close>: the first \<open>n\<close> rows in descending (ascending) order of the column,
  rows of equal value in their original order.
\<close>

definition nlargest :: "nat \<Rightarrow> ('a \<Rightarrow> real) \<Rightarrow> 'a list \<Rightarrow> 'a list" where
  "nlargest n col df = take n (sort_key (\<lambda>r. - col r) df)"

definition nsmallest :: "nat \<Rightarrow> ('a \<Rightarrow> real) \<Rightarrow> 'a list \<Rightarrow> 'a list" where
  "nsmallest n col df = take n (sort_key col df)"

definition volatility :: "row \<Rightarrow> real" where
  "volatility x = \<bar>percent_change_1h x - percent_change_24h x / 24\<bar>"

definition trend_consistency :: "row \<Rightarrow> nat" where
  "trend_consistency x =
     (if (percent_change_1h x > 0 \<and> percent_change_24h x > 0 \<and> percent_change_7d x > 0) \<or>
         (percent_change_1h x < 0 \<and> percent_change_24h x < 0 \<and> percent_change_7d x < 0)
      then 1 else 0)"

definition total_market_cap :: "row list \<Rightarrow> real" where
  "total_market_cap df = sum_list (map market_cap df)"

text \<open>The column \<^verbatim>\<open>df['market_dominance']\<close>.\<close>

definition market_dominance_col :: "row list \<Rightarrow> row \<Rightarrow> real" where
  "market_dominance_col df x =
     (if total_market_cap df > 0 then market_cap x / total_market_cap df * 100 else 0)"

text \<open>The rows each view selects, before the projection on its columns.\<close>

definition top_gainers_rows :: "row list \<Rightarrow> row list" where
  "top_gainers_rows df = nlargest 5 percent_change_24h df"

definition top_losers_rows :: "row list \<Rightarrow> row list" where
  "top_losers_rows df = nsmallest 5 percent_change_24h df"

definition strong_trends_rows :: "row list \<Rightarrow> row list" where
  "strong_trends_rows df = nlargest 5 market_cap (filter (\<lambda>x. trend_consistency x = 1) df)"

definition analyze :: "row list \<Rightarrow> analysis" where
  "analyze df =
     \<lparr>top_gainers = map (\<lambda>x. (symbol x, percent_change_24h x)) (top_gainers_rows df),
      top_losers = map (\<lambda>x. (symbol x, percent_change_24h x)) (top_losers_rows df),
      high_liquidity =
        map (\<lambda>x. (symbol x, volume_to_market_cap x)) (nlargest 5 volume_to_market_cap df),
      high_volatility = map (\<lambda>x. (symbol x, volatility x)) (nlargest 5 volatility df),
      strong_trends =
        map (\<lambda>x. (symbol x, percent_change_24h x, percent_change_7d x)) (strong_trends_rows df),
      market_dominance =
        map (\<lambda>x. (symbol x, market_dominance_col df x)) (nlargest 5 (market_dominance_col df) df)\<rparr>"

text \<open>
  \<^verbatim>\<open>save_analysis_results\<close>: one row per entry of each view, (timestamp, analysis type,
  symbol, the entry as JSON). The inserts share one \<^verbatim>\<open>try\<close>: when one raises nothing is
  committed. The connection is opened outside the \<^verbatim>\<open>try\<close>.
\<close>

definition result_rows :: "string \<Rightarrow> analysis \<Rightarrow> (string \<times> string \<times> json \<times> json) list" where
  "result_rows timestamp a =
     map (\<lambda>(s, v). (timestamp, ''top_gainers'', s,
            JObj [(''symbol'', s), (''percent_change_24h'', JNum v)])) (top_gainers a) @
     map (\<lambda>(s, v). (timestamp, ''top_losers'', s,
            JObj [(''symbol'', s), (''percent_change_24h'', JNum v)])) (top_losers a) @
     map (\<lambda>(s, v). (timestamp, ''high_liquidity'', s,
            JObj [(''symbol'', s), (''volume_to_market_cap'', JNum v)])) (high_liquidity a) @
     map (\<lambda>(s, v). (timestamp, ''high_volatility'', s,
            JObj [(''symbol'', s), (''volatility'', JNum v)])) (high_volatility a) @
     map (\<lambda>(s, v, v'). (timestamp, ''strong_trends'', s,
            JObj [(''symbol'', s), (''percent_change_24h'', JNum v),
                  (''percent_change_7d'', JNum v')])) (strong_trends a) @
     map (\<lambda>(s, v). (timestamp, ''market_dominance'', s,
            JObj [(''symbol'', s), (''market_dominance'', JNum v)])) (market_dominance a)"

definition save_analysis_results :: "env \<Rightarrow> analysis \<Rightarrow> world \<Rightarrow> py_error option \<times> world" where
  "save_analysis_results e a w =
     (if \<not> db_ok e then (Some DatabaseError, w)
      else if analysis_insert_ok e (result_rows (now_iso e) a)
      then (None, w\<lparr>analysis_rows := analysis_rows w @ result_rows (now_iso e) a\<rparr>)
      else (None, w\<lparr>errors_logged := errors_logged w @ [SaveFailed]\<rparr>))"

text \<open>The result \<open>None\<close> is the empty dict \<^verbatim>\<open>{}\<close>.\<close>

definition analyze_market_data ::
    "env \<Rightarrow> row list option \<Rightarrow> world \<Rightarrow> (py_error + analysis option) \<times> world" where
  "analyze_market_data e df w =
     (case df of
        None \<Rightarrow> (Inr None, w)
      | Some rows \<Rightarrow>
          (if rows = [] then (Inr None, w)
           else (case save_analysis_results e (analyze rows) w of
                   (Some err, w') \<Rightarrow> (Inl err, w')
                 | (None, w') \<Rightarrow> (Inr (Some (analyze rows)), w'))))"

section \<open>The Renderer and the alerts\<close>

definition generate_charts :: "env \<Rightarrow> row list option \<Rightarrow> string option" where
  "generate_charts e df =
     (case df of
        None \<Rightarrow> None
      | Some rows \<Rightarrow>
          (if rows = [] then None
           else if chart_ok e
           then Some (data_dir e @ ''/market_overview_'' @ now_stamp e @ ''.png'')
           else None))"

definition format_market_overview :: "env \<Rightarrow> row list option \<Rightarrow> string" where
  "format_market_overview e df =
     (case df of
        None \<Rightarrow> ''No hay datos disponibles''
      | Some rows \<Rightarrow> (if rows = [] then ''No hay datos disponibles'' else overview_text e rows))"

definition format_top_coins :: "env \<Rightarrow> row list option \<Rightarrow> nat \<Rightarrow> string" where
  "format_top_coins e df top_n =
     (case df of
        None \<Rightarrow> ''No hay datos disponibles''
      | Some rows \<Rightarrow>
          (if rows = [] then ''No hay datos disponibles'' else top_coins_text e rows top_n))"

definition format_detailed_analysis :: "env \<Rightarrow> analysis option \<Rightarrow> string" where
  "format_detailed_analysis e analysis_results =
     (case analysis_results of
        None \<Rightarrow> ''No hay datos de an'' @ [CHR 0xE1] @ ''lisis disponibles''
      | Some a \<Rightarrow> analysis_text e a)"

text \<open>
  \<^verbatim>\<open>check_for_alerts\<close>: the rows with \<^verbatim>\<open>abs(percent_change_1h) > 10\<close>, then one appended
  message per such row. The comparison with \<^verbatim>\<open>previous_df\<close> is a \<^verbatim>\<open>pass\<close>.
\<close>

definition check_for_alerts :: "env \<Rightarrow> row list option \<Rightarrow> row list option \<Rightarrow> string list" where
  "check_for_alerts e df previous_df =
     (case df of
        None \<Rightarrow> []
      | Some rows \<Rightarrow>
          (if rows = [] then []
           else foldl (\<lambda>alerts coin. alerts @
                         [alert_text e (name coin) (symbol coin) (percent_change_1h coin > 0)
                            \<bar>percent_change_1h coin\<bar>])
                  [] (filter (\<lambda>x. \<bar>percent_change_1h x\<bar> > 10) rows)))"

text \<open>\<^verbatim>\<open>sep.join(xs)\<close>\<close>

fun join :: "string \<Rightarrow> string list \<Rightarrow> string" where
  "join sep [] = []"
| "join sep [x] = x"
| "join sep (x # y # ys) = x @ sep @ join sep (y # ys)"

section \<open>One cycle and the scheduler loop\<close>

definition process_crypto_data :: "env \<Rightarrow> world \<Rightarrow> py_error option \<times> world" where
  "process_crypto_data e w =
     (let data = get_crypto_data (fetch e) in
      if no_data data then (None, w\<lparr>errors_logged := errors_logged w @ [FetchSkipped]\<rparr>)
      else
        (case save_raw_data e data w of
           (Some err, w1) \<Rightarrow> (Some err, w1)
         | (None, w1) \<Rightarrow>
        (case save_data_to_db e data w1 of
           (Some err, w2) \<Rightarrow> (Some err, w2)
         | (None, w2) \<Rightarrow>
        (case convert_to_dataframe data of
           Inl err \<Rightarrow> (Some err, w2)
         | Inr df \<Rightarrow>
        (case analyze_market_data e df w2 of
           (Inl err, w3) \<Rightarrow> (Some err, w3)
         | (Inr analysis_results, w3) \<Rightarrow>
             (let chart_path = generate_charts e df;
                  market_overview = format_market_overview e df;
                  top_coins_msg = format_top_coins e df 5;
                  analysis_msg = format_detailed_analysis e analysis_results;
                  alerts = check_for_alerts e df None;
                  alerts_msg = (if alerts \<noteq> [] then join [CHR 0x0A] alerts else []);
                  w4 = (if alerts_msg \<noteq> []
                        then snd (send_message_to_telegram e alerts_msg None w3) else w3);
                  full_report = market_overview @ [CHR 0x0A, CHR 0x0A] @ top_coins_msg
                                @ [CHR 0x0A, CHR 0x0A] @ analysis_msg
              in (None, snd (send_message_to_telegram e full_report chart_path w4))))))))"

datatype status = Running | Stopped | Crashed py_error

text \<open>
  The \<^verbatim>\<open>while True\<close> of \<^verbatim>\<open>main\<close>, for as many iterations as the first argument allows;
  \<open>Running\<close> when they are used up. Cycle \<open>k\<close> meets the environment \<open>envs k\<close>.
\<close>

fun main_loop :: "nat \<Rightarrow> (nat \<Rightarrow> env) \<Rightarrow> nat \<Rightarrow> world \<Rightarrow> status \<times> world" where
  "main_loop 0 envs k w = (Running, w)"
| "main_loop (Suc n) envs k w =
     (let w1 = w\<lparr>slept := slept w @ [fetch_interval (envs k)]\<rparr> in
      if interrupted (envs k)
      then (Stopped, w1\<lparr>errors_logged := errors_logged w1 @ [UserStopped]\<rparr>)
      else (case process_crypto_data (envs k) w1 of
              (None, w2) \<Rightarrow> main_loop n envs (Suc k) w2
            | (Some err, w2) \<Rightarrow>
                main_loop n envs (Suc k)
                  (w2\<lparr>errors_logged := errors_logged w2 @ [LoopError err],
                      slept := slept w2 @ [60]\<rparr>)))"

text \<open>
  \<^verbatim>\<open>main\<close>: \<^verbatim>\<open>initialize_database()\<close>, the first \<^verbatim>\<open>process_crypto_data()\<close>, then the loop.
  The first two calls stand outside the \<^verbatim>\<open>try\<close>.
\<close>

definition main :: "nat \<Rightarrow> (nat \<Rightarrow> env) \<Rightarrow> world \<Rightarrow> status \<times> world" where
  "main n envs w =
     (if \<not> db_ok (envs 0) then (Crashed DatabaseError, w)
      else (case process_crypto_data (envs 0) w of
              (Some err, w1) \<Rightarrow> (Crashed err, w1)
            | (None, w1) \<Rightarrow> main_loop n envs 1 w1))"

section \<open>The test script \<^verbatim>\<open>testcryptodata.py\<close>\<close>

text \<open>
  Its \<^verbatim>\<open>get_crypto_data\<close> is the one above. Its \<^verbatim>\<open>send_message_to_telegram\<close> posts the
  text as it is. The warning sign that opens the warning (U+26A0 U+FE0F) is written as its six
  UTF-8 bytes.
\<close>

definition test_send_message_to_telegram :: "env \<Rightarrow> string \<Rightarrow> world \<Rightarrow> bool \<times> world" where
  "test_send_message_to_telegram e message w = finish (post e (SendMessage message) w)"

fun test_lines :: "env \<Rightarrow> json list \<Rightarrow> py_error + string list" where
  "test_lines e [] = Inr []"
| "test_lines e (coin # coins) =
     raising (getitem coin ''name'') (\<lambda>n.
     raising (getitem coin ''symbol'') (\<lambda>s.
     raising (quote_usd coin ''price'') (\<lambda>p.
     raising (price_line e n s p) (\<lambda>l.
     raising (test_lines e coins) (\<lambda>ls. Inr (l # ls))))))"

definition fetch_warning :: string where
  "fetch_warning = [CHR 0xE2, CHR 0x9A, CHR 0xA0, CHR 0xEF, CHR 0xB8, CHR 0x8F]
     @ '' No se pudieron obtener datos de CoinMarketCap.''"

definition test_main :: "env \<Rightarrow> world \<Rightarrow> py_error option \<times> world" where
  "test_main e w =
     (case get_crypto_data (fetch e) of
        None \<Rightarrow> (None, snd (test_send_message_to_telegram e fetch_warning w))
      | Some d \<Rightarrow>
          (if \<not> truthy d then (None, snd (test_send_message_to_telegram e fetch_warning w))
           else (case test_lines e (py_iter d) of
                   Inl err \<Rightarrow> (Some err, w)
                 | Inr ls \<Rightarrow>
                     (None, snd (test_send_message_to_telegram e (join [CHR 0x0A] ls) w)))))"

section \<open>A concrete environment and payload\<close>

text \<open>
  An environment whose fetch is answered with status 500 and in which nothing else fails,
  and the state before the first cycle.
\<close>

definition quiet_env :: env where
  "quiet_env = \<lparr>fetch = HttpResponse 500 None, post_ok = (\<lambda>h r. True), path_exists = (\<lambda>p. True),
     open_ok = (\<lambda>p. True), archive_ok = True, db_ok = True, now_iso = ''2025-01-01T00:00:00'',
     now_stamp = ''20250101_000000'',
     chart_ok = True, data_dir = ''data'', fetch_interval = 3600, interrupted = False,
     insert_ok = (\<lambda>rows r. True), analysis_insert_ok = (\<lambda>rows. True),
     overview_text = (\<lambda>df. ''overview''), top_coins_text = (\<lambda>df n. ''top''),
     analysis_text = (\<lambda>a. ''analysis''),
     alert_text = (\<lambda>n s d v. ''alert''), price_line = (\<lambda>n s p. Inr ''line'')\<rparr>"

definition empty_world :: world where
  "empty_world = \<lparr>crypto_data = [], analysis_rows = [], raw_files = [], sent = [],
     slept = [], errors_logged = []\<rparr>"

text \<open>Sample snapshots: eleven quotes with distinct 24h changes, three rising quotes.\<close>

definition quote_row :: "string \<Rightarrow> real \<Rightarrow> real \<Rightarrow> real \<Rightarrow> real \<Rightarrow> real \<Rightarrow> row" where
  "quote_row s cap vol c1 c24 c7 =
     \<lparr>coin_id = JStr s, name = JStr s, symbol = JStr s, price = JNum 1, market_cap = cap,
      volume_24h = vol, percent_change_1h = c1, percent_change_24h = c24,
      percent_change_7d = c7, volume_to_market_cap = (if cap > 0 then vol / cap else 0)\<rparr>"

definition eleven_quotes :: "row list" where
  "eleven_quotes =
     [quote_row ''A'' 100 10 1 6 1, quote_row ''B'' 90 10 1 (-5) 1, quote_row ''C'' 80 10 1 4 1,
      quote_row ''D'' 70 10 1 (-3) 1, quote_row ''E'' 60 10 1 2 1, quote_row ''F'' 50 10 1 (-1) 1,
      quote_row ''G'' 40 10 1 0 1, quote_row ''H'' 30 10 1 1 1, quote_row ''I'' 20 10 1 (-2) 1,
      quote_row ''J'' 10 10 1 3 1, quote_row ''K'' 5 10 1 (-4) 1]"

definition three_rising :: "row list" where
  "three_rising =
     [quote_row ''X'' 20 1 1 2 3, quote_row ''Y'' 300 1 2 1 1, quote_row ''Z'' 100 1 3 3 2]"

text \<open>
  A payload of three assets whose second one has no \<^verbatim>\<open>market_cap\<close>, and the environment
  in which the fetch returns it with status 200.
\<close>

definition listing :: "real \<Rightarrow> string \<Rightarrow> real \<Rightarrow> real \<Rightarrow> real \<Rightarrow> json" where
  "listing i s cap vol chg =
     JObj [(''id'', JNum i), (''name'', JStr s), (''symbol'', JStr s),
           (''quote'', JObj [(''USD'',
              JObj [(''price'', JNum 1), (''market_cap'', JNum cap), (''volume_24h'', JNum vol),
                    (''percent_change_1h'', JNum chg), (''percent_change_24h'', JNum chg),
                    (''percent_change_7d'', JNum chg)])])]"

definition broken_listing :: json where
  "broken_listing =
     JObj [(''id'', JNum 2), (''name'', JStr ''Broken''), (''symbol'', JStr ''BRK''),
           (''quote'', JObj [(''USD'',
              JObj [(''price'', JNum 1), (''volume_24h'', JNum 5),
                    (''percent_change_1h'', JNum 1), (''percent_change_24h'', JNum 1),
                    (''percent_change_7d'', JNum 1)])])]"

definition partial_payload :: json where
  "partial_payload = JArr [listing 1 ''AAA'' 10 5 2, broken_listing, listing 3 ''BBB'' 0 5 (-3)]"

definition partial_env :: env where
  "partial_env = quiet_env\<lparr>fetch := HttpResponse 200 (Some (JObj [(''data'', partial_payload)]))\<rparr>"

section \<open>Properties of the Notifier\<close>

lemma concat_chunks_upto:
  "concat (map (\<lambda>k. take n (drop (k * n) xs)) [0..<m]) = take (m * n) xs"
proof (induction m)
  case 0 show ?case by simp
next
  case (Suc m)
  have "take (m * n) xs @ take n (drop (m * n) xs) = take (m * n + n) xs"
    by (simp add: take_add)
  with Suc show ?case by (simp add: add.commute)
qed

lemma chunks_alt:
  "chunks message = map (\<lambda>k. take 4000 (drop (k * 4000) message)) [0..<(length message + 3999) div 4000]"
  by (simp add: chunks_def py_range_def slice_def comp_def add.commute)

lemma ceil_cover: "0 < n \<Longrightarrow> (x::nat) \<le> ((x + (n - 1)) div n) * n"
proof -
  assume n: "0 < n"
  have "x + (n - 1) = ((x + (n - 1)) div n) * n + (x + (n - 1)) mod n" by simp
  moreover have "(x + (n - 1)) mod n < n" using n by (rule mod_less_divisor)
  ultimately show ?thesis by linarith
qed

lemma ceil_strict: "0 < n \<Longrightarrow> k < (x + (n - 1)) div n \<Longrightarrow> k * n < (x::nat)"
proof -
  assume n: "0 < n" and k: "k < (x + (n - 1)) div n"
  from k have "Suc k \<le> (x + (n - 1)) div n" by simp
  then have "Suc k * n \<le> ((x + (n - 1)) div n) * n" by (rule mult_le_mono1)
  also have "\<dots> \<le> x + (n - 1)" by simp
  finally show ?thesis using n by simp
qed

lemma concat_chunks: "concat (chunks message) = message"
proof -
  have "length message \<le> ((length message + (4000 - 1)) div 4000) * 4000"
    by (rule ceil_cover) simp
  then show ?thesis by (simp add: chunks_alt concat_chunks_upto)
qed

lemma length_chunks: "length (chunks message) = (length message + 3999) div 4000"
  by (simp add: chunks_alt)

lemma chunk_length:
  assumes "c \<in> set (chunks message)"
  shows "length c \<le> 4000 \<and> c \<noteq> []"
proof -
  from assms obtain k where k: "k < (length message + (4000 - 1)) div 4000"
    and c: "c = take 4000 (drop (k * 4000) message)"
    by (auto simp: chunks_alt)
  have "k * 4000 < length message" by (rule ceil_strict[OF _ k]) simp
  with c show ?thesis by auto
qed

lemma post_each_sent_prefix:
  "\<exists>cs'. prefix cs' cs \<and> sent (snd (post_each e cs w)) = sent w @ map SendMessage cs'"
proof (induction cs arbitrary: w)
  case Nil show ?case by simp
next
  case (Cons c cs)
  show ?case
  proof (cases "post_ok e (sent w) (SendMessage c)")
    case True
    from Cons[of "w\<lparr>sent := sent w @ [SendMessage c]\<rparr>"] obtain cs' where
      "prefix cs' cs" "sent (snd (post_each e cs (w\<lparr>sent := sent w @ [SendMessage c]\<rparr>))) = sent w @ [SendMessage c] @ map SendMessage cs'"
      by auto
    with True show ?thesis by (intro exI[of _ "c # cs'"]) (simp add: post_def)
  next
    case False
    then show ?thesis by (intro exI[of _ "[c]"]) (simp add: post_def)
  qed
qed

lemma post_each_all_ok:
  "\<forall>h r. post_ok e h r \<Longrightarrow> post_each e cs w = (True, w\<lparr>sent := sent w @ map SendMessage cs\<rparr>)"
  by (induction cs arbitrary: w) (simp_all add: post_def)

lemma send_text_long:
  "length message > 4000 \<Longrightarrow> send_text e message w = post_each e (chunks message) w"
  by (simp add: send_text_def)

lemma finish_snd_sent: "sent (snd (finish r)) = sent (snd r)"
  by (cases r) (auto simp: finish_def split: bool.splits)

lemma finish_True: "finish (True, w) = (True, w)"
  by (simp add: finish_def)

text \<open>
  Claim C2. A text message (no image) of more than 4000 characters is cut into the chunks
  \<open>chunks message\<close>: each has at most 4000 characters and is not empty, their concatenation
  is the message, and a message of 9000 characters gives 3 of them. The requests attempted are
  always a prefix of these chunks in their order, one sendMessage per chunk; when no POST
  raises they are all of them and the result is \<open>True\<close>.
\<close>

theorem C2_long_text_is_chunked:
  assumes "length message > 4000"
  shows "(\<exists>cs. prefix cs (chunks message) \<and>
            sent (snd (send_message_to_telegram e message None w)) = sent w @ map SendMessage cs)
       \<and> ((\<forall>h r. post_ok e h r) \<longrightarrow>
            send_message_to_telegram e message None w
              = (True, w\<lparr>sent := sent w @ map SendMessage (chunks message)\<rparr>))
       \<and> (\<forall>c \<in> set (chunks message). length c \<le> 4000 \<and> c \<noteq> [])
       \<and> concat (chunks message) = message
       \<and> (length message = 9000 \<longrightarrow> length (chunks message) = 3)"
proof (intro conjI)
  show "\<exists>cs. prefix cs (chunks message) \<and>
            sent (snd (send_message_to_telegram e message None w)) = sent w @ map SendMessage cs"
    using post_each_sent_prefix[of "chunks message" e w] assms
    by (simp add: send_text_long finish_snd_sent)
  show "(\<forall>h r. post_ok e h r) \<longrightarrow>
            send_message_to_telegram e message None w
              = (True, w\<lparr>sent := sent w @ map SendMessage (chunks message)\<rparr>)"
    using assms by (simp add: send_text_long post_each_all_ok finish_True)
  show "\<forall>c \<in> set (chunks message). length c \<le> 4000 \<and> c \<noteq> []"
    using chunk_length by blast
  show "concat (chunks message) = message" by (rule concat_chunks)
  show "length message = 9000 \<longrightarrow> length (chunks message) = 3"
    by (simp add: length_chunks)
qed

theorem C2_long_text_is_chunked_witness:
  "length (replicate 9000 (CHR ''a'')) > 4000
   \<and> (\<forall>h r. post_ok quiet_env h r)
   \<and> send_message_to_telegram quiet_env (replicate 9000 (CHR ''a'')) None empty_world
       = (True, empty_world\<lparr>sent := sent empty_world @ map SendMessage (chunks (replicate 9000 (CHR ''a'')))\<rparr>)
   \<and> length (chunks (replicate 9000 (CHR ''a''))) = 3
   \<and> concat (chunks (replicate 9000 (CHR ''a''))) = replicate 9000 (CHR ''a'')"
proof -
  have h: "length (replicate 9000 (CHR ''a'')) > 4000" by simp
  have ok: "\<forall>h r. post_ok quiet_env h r" by (simp add: quiet_env_def)
  show ?thesis
    using C2_long_text_is_chunked[OF h, of quiet_env empty_world] ok by simp
qed

text \<open>
  Claim C3. Sending an image that exists with a message of more than 1024 characters, when no
  POST raises: the photo goes with the first 1024 characters as its caption, and the rest is
  handed to \<open>send_message_to_telegram\<close> again as a text message (which, beyond 4000
  characters, is cut as in C2). Caption and follow-up texts concatenate to the message; for
  1500 characters there is one follow-up message of 476 characters.
\<close>

theorem C3_long_caption_is_split:
  assumes "photo_path \<noteq> []" and "path_exists e photo_path" and "open_ok e photo_path"
    and "\<forall>h r. post_ok e h r" and "length message > 1024"
  shows "(let caption = take 1024 message;
              follow_up = drop 1024 message;
              texts = (if length follow_up > 4000 then chunks follow_up else [follow_up])
          in send_message_to_telegram e message (Some photo_path) w
               = (True, w\<lparr>sent := sent w @ SendPhoto photo_path caption # map SendMessage texts\<rparr>)
           \<and> snd (send_message_to_telegram e message (Some photo_path) w)
               = snd (send_message_to_telegram e follow_up None
                        (w\<lparr>sent := sent w @ [SendPhoto photo_path caption]\<rparr>))
           \<and> length caption = 1024
           \<and> caption @ concat texts = message
           \<and> (length message = 1500 \<longrightarrow> texts = [follow_up] \<and> length follow_up = 476))"
proof -
  let ?w' = "w\<lparr>sent := sent w @ [SendPhoto photo_path (take 1024 message)]\<rparr>"
  let ?f = "drop 1024 message"
  let ?texts = "if length ?f > 4000 then chunks ?f else [?f]"
  have inner: "send_message_to_telegram e ?f None ?w'
      = (True, w\<lparr>sent := sent w @ SendPhoto photo_path (take 1024 message) # map SendMessage ?texts\<rparr>)"
    using assms(4) by (simp add: send_text_def post_each_all_ok finish_True post_def)
  have outer: "send_message_to_telegram e message (Some photo_path) w
      = (True, snd (send_message_to_telegram e ?f None ?w'))"
    using assms by (simp add: post_def slice_def)
  have cat: "concat ?texts = ?f" by (simp add: concat_chunks)
  show ?thesis
    unfolding Let_def
  proof (intro conjI)
    show "send_message_to_telegram e message (Some photo_path) w
      = (True, w\<lparr>sent := sent w @ SendPhoto photo_path (take 1024 message) # map SendMessage ?texts\<rparr>)"
      unfolding outer inner by simp
    show "snd (send_message_to_telegram e message (Some photo_path) w)
               = snd (send_message_to_telegram e ?f None ?w')"
      unfolding outer by simp
    show "length (take 1024 message) = 1024" using assms(5) by simp
    show "take 1024 message @ concat ?texts = message" unfolding cat by simp
    show "length message = 1500 \<longrightarrow> ?texts = [?f] \<and> length ?f = 476" by simp
  qed
qed

theorem C3_long_caption_is_split_witness:
  "''chart.png'' \<noteq> [] \<and> path_exists quiet_env ''chart.png'' \<and> open_ok quiet_env ''chart.png''
   \<and> (\<forall>h r. post_ok quiet_env h r) \<and> length (replicate 1500 (CHR ''a'')) > 1024
   \<and> send_message_to_telegram quiet_env (replicate 1500 (CHR ''a'')) (Some ''chart.png'') empty_world
       = (True, empty_world\<lparr>sent := [SendPhoto ''chart.png'' (replicate 1024 (CHR ''a'')),
                                        SendMessage (replicate 476 (CHR ''a''))]\<rparr>)"
proof -
  have a: "''chart.png'' \<noteq> []" "path_exists quiet_env ''chart.png''" "open_ok quiet_env ''chart.png''"
    "\<forall>h r. post_ok quiet_env h r" "length (replicate 1500 (CHR ''a'')) > 1024"
    by (simp_all add: quiet_env_def)
  show ?thesis
    using C3_long_caption_is_split[OF a, of empty_world] a
    by (simp add: Let_def empty_world_def)
qed

section \<open>Properties of the alerts and the Analyzer\<close>

lemma foldl_append_one: "foldl (\<lambda>acc x. acc @ [g x]) a xs = a @ map g xs"
  by (induction xs arbitrary: a) simp_all

text \<open>
  Claim C10. For a snapshot that is not empty the alerts are, in the order of the snapshot, one
  message for each row whose \<open>percent_change_1h\<close> has an absolute value above 10 and none for
  any other row; an empty or absent snapshot gives the empty list.
\<close>

theorem C10_alert_per_big_mover:
  "check_for_alerts e (Some df) previous_df
     = map (\<lambda>coin. alert_text e (name coin) (symbol coin) (percent_change_1h coin > 0)
                      \<bar>percent_change_1h coin\<bar>)
           (filter (\<lambda>x. \<bar>percent_change_1h x\<bar> > 10) df)
   \<and> length (check_for_alerts e (Some df) previous_df)
       = length (filter (\<lambda>x. \<bar>percent_change_1h x\<bar> > 10) df)
   \<and> check_for_alerts e (Some []) previous_df = []
   \<and> check_for_alerts e None previous_df = []"
  by (simp add: check_for_alerts_def foldl_append_one)

lemma sorted_take_drop_le:
  assumes "sorted (map f S)" and "x \<in> set (take n S)" and "y \<in> set (drop n S)"
  shows "f x \<le> f y"
proof -
  have "sorted (map f (take n S) @ map f (drop n S))"
    using assms(1) by (simp flip: map_append)
  then show ?thesis using assms(2,3) by (auto simp: sorted_append)
qed

lemma nlargest_length: "length (nlargest n col df) = min n (length df)"
  by (simp add: nlargest_def)

lemma nsmallest_length: "length (nsmallest n col df) = min n (length df)"
  by (simp add: nsmallest_def)

lemma nlargest_selects:
  "\<exists>rest. mset (nlargest n col df) + mset rest = mset df
     \<and> (\<forall>x \<in> set (nlargest n col df). \<forall>y \<in> set rest. col y \<le> col x)"
proof (intro exI conjI ballI)
  let ?S = "sort_key (\<lambda>r. - col r) df"
  have "mset (take n ?S) + mset (drop n ?S) = mset ?S"
    by (simp flip: mset_append)
  then show "mset (nlargest n col df) + mset (drop n ?S) = mset df"
    by (simp add: nlargest_def)
  fix x y assume "x \<in> set (nlargest n col df)" and "y \<in> set (drop n ?S)"
  then have "- col x \<le> - col y"
    using sorted_take_drop_le[of "\<lambda>r. - col r" ?S x n y] by (simp add: nlargest_def)
  then show "col y \<le> col x" by simp
qed

lemma nsmallest_selects:
  "\<exists>rest. mset (nsmallest n col df) + mset rest = mset df
     \<and> (\<forall>x \<in> set (nsmallest n col df). \<forall>y \<in> set rest. col x \<le> col y)"
proof (intro exI conjI ballI)
  let ?S = "sort_key col df"
  have "mset (take n ?S) + mset (drop n ?S) = mset ?S"
    by (simp flip: mset_append)
  then show "mset (nsmallest n col df) + mset (drop n ?S) = mset df"
    by (simp add: nsmallest_def)
  fix x y assume "x \<in> set (nsmallest n col df)" and "y \<in> set (drop n ?S)"
  then show "col x \<le> col y"
    using sorted_take_drop_le[of col ?S x n y] by (simp add: nsmallest_def)
qed

lemma nlargest_descending:
  "sorted_wrt (\<lambda>x y. col y \<le> col x) (nlargest n col df)"
proof -
  have "sorted (map (\<lambda>r. - col r) (sort_key (\<lambda>r. - col r) df))" by simp
  then have "sorted_wrt (\<lambda>x y. col y \<le> col x) (sort_key (\<lambda>r. - col r) df)"
    by (simp add: sorted_map)
  then show ?thesis unfolding nlargest_def by (rule sorted_wrt_take)
qed

lemma nlargest_subset: "set (nlargest n col df) \<subseteq> set df"
  using set_take_subset[of n "sort_key (\<lambda>r. - col r) df"] by (simp add: nlargest_def)

lemma nlargest_all: "length df \<le> n \<Longrightarrow> mset (nlargest n col df) = mset df"
  by (simp add: nlargest_def)



lemma extremes_disjoint:
  fixes col :: "'a \<Rightarrow> real"
  assumes len: "2 * n \<le> length df" and inj: "distinct (map col df)"
  shows "set (nlargest n col df) \<inter> set (nsmallest n col df) = {}"
proof (rule ccontr)
  let ?D = "sort_key (\<lambda>r. - col r) df" and ?A = "sort_key col df"
  assume "set (nlargest n col df) \<inter> set (nsmallest n col df) \<noteq> {}"
  then obtain x where xg: "x \<in> set (take n ?D)" and xl: "x \<in> set (take n ?A)"
    by (auto simp: nlargest_def nsmallest_def)
  have ddf: "distinct df" using inj by (simp add: distinct_map)
  have injon: "inj_on col (set df)" using inj by (simp add: distinct_map)
  have dD: "distinct ?D" and dA: "distinct ?A" using ddf by simp_all
  have below: "set (drop n ?D) \<subseteq> set (take n ?A) - {x}"
  proof
    fix y assume y: "y \<in> set (drop n ?D)"
    have "- col x \<le> - col y"
      using sorted_take_drop_le[of "\<lambda>r. - col r" ?D x n y] xg y by simp
    then have le: "col y \<le> col x" by simp
    have "set (take n ?D) \<inter> set (drop n ?D) = {}"
      using dD by (metis append_take_drop_id distinct_append)
    with xg y have ne: "y \<noteq> x" by auto
    have ydf: "y \<in> set df" using y in_set_dropD[of y n ?D] by simp
    have xdf: "x \<in> set df" using xg in_set_takeD[of x n ?D] by simp
    from injon ne ydf xdf have "col y \<noteq> col x" by (auto dest: inj_onD)
    with le have lt: "col y < col x" by simp
    have "y \<notin> set (drop n ?A)"
    proof
      assume "y \<in> set (drop n ?A)"
      then have "col x \<le> col y" using sorted_take_drop_le[of col ?A x n y] xl by simp
      with lt show False by simp
    qed
    moreover have "y \<in> set (take n ?A) \<union> set (drop n ?A)"
      using ydf by (simp flip: set_append)
    ultimately show "y \<in> set (take n ?A) - {x}" using ne by auto
  qed
  have "card (set (drop n ?D)) = length df - n"
    using dD by (simp add: distinct_card)
  moreover have "card (set (take n ?A) - {x}) < n"
  proof -
    have "card (set (take n ?A)) \<le> n"
      using card_length[of "take n ?A"] by simp
    moreover have "card (set (take n ?A) - {x}) < card (set (take n ?A))"
      using xl by (intro card_Diff1_less) simp_all
    ultimately show ?thesis by simp
  qed
  moreover have "card (set (drop n ?D)) \<le> card (set (take n ?A) - {x})"
    using below by (simp add: card_mono)
  ultimately show False using len by simp
qed

text \<open>
  Claim C5. The view \<open>top_gainers\<close> is the projection on (symbol, percent_change_24h) of
  min(5, size) rows of the snapshot such that no row left out has a larger 24h change;
  \<open>top_losers\<close> likewise with no row left out having a smaller one. When the snapshot has more
  than 10 rows and no 24h change occurs in both views, the views share no entry and no row;
  this is the case of every snapshot of at least 10 rows with pairwise distinct 24h changes.
\<close>

theorem C5_top_gainers_and_losers:
  "top_gainers (analyze df) = map (\<lambda>x. (symbol x, percent_change_24h x)) (top_gainers_rows df)
   \<and> top_losers (analyze df) = map (\<lambda>x. (symbol x, percent_change_24h x)) (top_losers_rows df)
   \<and> length (top_gainers (analyze df)) = min 5 (length df)
   \<and> length (top_losers (analyze df)) = min 5 (length df)
   \<and> (\<exists>rest. mset (top_gainers_rows df) + mset rest = mset df
         \<and> (\<forall>x \<in> set (top_gainers_rows df). \<forall>y \<in> set rest.
               percent_change_24h y \<le> percent_change_24h x))
   \<and> (\<exists>rest. mset (top_losers_rows df) + mset rest = mset df
         \<and> (\<forall>x \<in> set (top_losers_rows df). \<forall>y \<in> set rest.
               percent_change_24h x \<le> percent_change_24h y))
   \<and> (length df > 10
        \<and> snd ` set (top_gainers (analyze df)) \<inter> snd ` set (top_losers (analyze df)) = {}
       \<longrightarrow> set (top_gainers (analyze df)) \<inter> set (top_losers (analyze df)) = {}
           \<and> set (top_gainers_rows df) \<inter> set (top_losers_rows df) = {})
   \<and> (length df \<ge> 10 \<and> distinct (map percent_change_24h df)
       \<longrightarrow> set (top_gainers_rows df) \<inter> set (top_losers_rows df) = {})"
proof (intro conjI)
  show "length df \<ge> 10 \<and> distinct (map percent_change_24h df)
       \<longrightarrow> set (top_gainers_rows df) \<inter> set (top_losers_rows df) = {}"
    unfolding top_gainers_rows_def top_losers_rows_def
    using extremes_disjoint[of 5 df percent_change_24h] by simp
  show "top_gainers (analyze df) = map (\<lambda>x. (symbol x, percent_change_24h x)) (top_gainers_rows df)"
    by (simp add: analyze_def)
  show "top_losers (analyze df) = map (\<lambda>x. (symbol x, percent_change_24h x)) (top_losers_rows df)"
    by (simp add: analyze_def)
  show "length (top_gainers (analyze df)) = min 5 (length df)"
    by (simp add: analyze_def top_gainers_rows_def nlargest_length)
  show "length (top_losers (analyze df)) = min 5 (length df)"
    by (simp add: analyze_def top_losers_rows_def nsmallest_length)
  show "\<exists>rest. mset (top_gainers_rows df) + mset rest = mset df
         \<and> (\<forall>x \<in> set (top_gainers_rows df). \<forall>y \<in> set rest.
               percent_change_24h y \<le> percent_change_24h x)"
    unfolding top_gainers_rows_def by (rule nlargest_selects)
  show "\<exists>rest. mset (top_losers_rows df) + mset rest = mset df
         \<and> (\<forall>x \<in> set (top_losers_rows df). \<forall>y \<in> set rest.
               percent_change_24h x \<le> percent_change_24h y)"
    unfolding top_losers_rows_def by (rule nsmallest_selects)
  show "length df > 10
        \<and> snd ` set (top_gainers (analyze df)) \<inter> snd ` set (top_losers (analyze df)) = {}
       \<longrightarrow> set (top_gainers (analyze df)) \<inter> set (top_losers (analyze df)) = {}
           \<and> set (top_gainers_rows df) \<inter> set (top_losers_rows df) = {}"
  proof (intro impI, elim conjE)
    assume d: "snd ` set (top_gainers (analyze df)) \<inter> snd ` set (top_losers (analyze df)) = {}"
    have g: "snd ` set (top_gainers (analyze df)) = percent_change_24h ` set (top_gainers_rows df)"
      by (force simp: analyze_def)
    have l: "snd ` set (top_losers (analyze df)) = percent_change_24h ` set (top_losers_rows df)"
      by (force simp: analyze_def)
    from d show "set (top_gainers (analyze df)) \<inter> set (top_losers (analyze df)) = {}
           \<and> set (top_gainers_rows df) \<inter> set (top_losers_rows df) = {}"
      unfolding g l by (auto simp: analyze_def)
  qed
qed

theorem C5_top_gainers_and_losers_witness:
  "length eleven_quotes > 10
   \<and> snd ` set (top_gainers (analyze eleven_quotes))
       \<inter> snd ` set (top_losers (analyze eleven_quotes)) = {}
   \<and> set (top_gainers (analyze eleven_quotes)) \<inter> set (top_losers (analyze eleven_quotes)) = {}
   \<and> top_gainers (analyze eleven_quotes)
       = [(JStr ''A'', 6), (JStr ''C'', 4), (JStr ''J'', 3), (JStr ''E'', 2), (JStr ''H'', 1)]
   \<and> top_losers (analyze eleven_quotes)
       = [(JStr ''B'', -5), (JStr ''K'', -4), (JStr ''D'', -3), (JStr ''I'', -2), (JStr ''F'', -1)]"
proof -
  have g: "top_gainers (analyze eleven_quotes)
       = [(JStr ''A'', 6), (JStr ''C'', 4), (JStr ''J'', 3), (JStr ''E'', 2), (JStr ''H'', 1)]"
    by (simp add: analyze_def top_gainers_rows_def nlargest_def eleven_quotes_def quote_row_def)
  have l: "top_losers (analyze eleven_quotes)
       = [(JStr ''B'', -5), (JStr ''K'', -4), (JStr ''D'', -3), (JStr ''I'', -2), (JStr ''F'', -1)]"
    by (simp add: analyze_def top_losers_rows_def nsmallest_def eleven_quotes_def quote_row_def)
  have h: "length eleven_quotes > 10
     \<and> snd ` set (top_gainers (analyze eleven_quotes))
       \<inter> snd ` set (top_losers (analyze eleven_quotes)) = {}"
    unfolding g l by (simp add: eleven_quotes_def)
  have c: "set (top_gainers (analyze eleven_quotes)) \<inter> set (top_losers (analyze eleven_quotes)) = {}"
    using C5_top_gainers_and_losers[of eleven_quotes] h by blast
  from h c g l show ?thesis by blast
qed



text \<open>
  Claim C8. The view \<open>strong_trends\<close> is the projection of rows of the snapshot whose 1h, 24h
  and 7d changes are all positive or all negative: min(5, number of such rows) of them, none
  left out having a larger market cap, in descending order of market cap. A snapshot of 3
  rows with all changes positive yields all 3.
\<close>

theorem C8_strong_trends:
  "strong_trends (analyze df)
     = map (\<lambda>x. (symbol x, percent_change_24h x, percent_change_7d x)) (strong_trends_rows df)
   \<and> (\<forall>x \<in> set (strong_trends_rows df). x \<in> set df \<and>
         ((percent_change_1h x > 0 \<and> percent_change_24h x > 0 \<and> percent_change_7d x > 0) \<or>
          (percent_change_1h x < 0 \<and> percent_change_24h x < 0 \<and> percent_change_7d x < 0)))
   \<and> length (strong_trends_rows df)
       = min 5 (length (filter (\<lambda>x.
           (percent_change_1h x > 0 \<and> percent_change_24h x > 0 \<and> percent_change_7d x > 0) \<or>
           (percent_change_1h x < 0 \<and> percent_change_24h x < 0 \<and> percent_change_7d x < 0)) df))
   \<and> (\<exists>rest. mset (strong_trends_rows df) + mset rest
               = mset (filter (\<lambda>x.
           (percent_change_1h x > 0 \<and> percent_change_24h x > 0 \<and> percent_change_7d x > 0) \<or>
           (percent_change_1h x < 0 \<and> percent_change_24h x < 0 \<and> percent_change_7d x < 0)) df)
         \<and> (\<forall>x \<in> set (strong_trends_rows df). \<forall>y \<in> set rest. market_cap y \<le> market_cap x))
   \<and> sorted_wrt (\<lambda>x y. market_cap y \<le> market_cap x) (strong_trends_rows df)
   \<and> (length df = 3 \<and>
        (\<forall>x \<in> set df. percent_change_1h x > 0 \<and> percent_change_24h x > 0 \<and> percent_change_7d x > 0)
       \<longrightarrow> mset (strong_trends_rows df) = mset df)"
proof -
  let ?P = "\<lambda>x. (percent_change_1h x > 0 \<and> percent_change_24h x > 0 \<and> percent_change_7d x > 0) \<or>
           (percent_change_1h x < 0 \<and> percent_change_24h x < 0 \<and> percent_change_7d x < 0)"
  have tc: "(\<lambda>x. trend_consistency x = 1) = ?P"
    by (rule ext) (simp add: trend_consistency_def)
  have rows: "strong_trends_rows df = nlargest 5 market_cap (filter ?P df)"
    by (simp only: strong_trends_rows_def tc)
  have a: "strong_trends (analyze df)
     = map (\<lambda>x. (symbol x, percent_change_24h x, percent_change_7d x)) (strong_trends_rows df)"
    by (simp add: analyze_def)
  have b: "\<forall>x \<in> set (strong_trends_rows df). x \<in> set df \<and> ?P x"
    using nlargest_subset[of 5 market_cap "filter ?P df"] unfolding rows by auto
  have c: "length (strong_trends_rows df) = min 5 (length (filter ?P df))"
    unfolding rows by (rule nlargest_length)
  have d: "\<exists>rest. mset (strong_trends_rows df) + mset rest = mset (filter ?P df)
         \<and> (\<forall>x \<in> set (strong_trends_rows df). \<forall>y \<in> set rest. market_cap y \<le> market_cap x)"
    unfolding rows by (rule nlargest_selects)
  have e: "sorted_wrt (\<lambda>x y. market_cap y \<le> market_cap x) (strong_trends_rows df)"
    unfolding rows by (rule nlargest_descending)
  have f: "mset (strong_trends_rows df) = mset df"
    if "length df = 3 \<and>
        (\<forall>x \<in> set df. percent_change_1h x > 0 \<and> percent_change_24h x > 0 \<and> percent_change_7d x > 0)"
  proof -
    from that have "filter ?P df = df" by (auto intro: filter_True)
    with that show ?thesis unfolding rows by (simp add: nlargest_all)
  qed
  from a b c d e f show ?thesis by blast
qed

theorem C8_strong_trends_witness:
  "length three_rising = 3
   \<and> list_all (\<lambda>x. percent_change_1h x > 0 \<and> percent_change_24h x > 0 \<and> percent_change_7d x > 0)
        three_rising
   \<and> mset (strong_trends_rows three_rising) = mset three_rising
   \<and> strong_trends (analyze three_rising)
       = [(JStr ''Y'', 1, 1), (JStr ''Z'', 3, 2), (JStr ''X'', 2, 3)]"
proof -
  have h: "length three_rising = 3"
    by (simp add: three_rising_def)
  have p: "list_all (\<lambda>x. percent_change_1h x > 0 \<and> percent_change_24h x > 0 \<and> percent_change_7d x > 0)
        three_rising"
    by (simp add: three_rising_def quote_row_def)
  have m: "mset (strong_trends_rows three_rising) = mset three_rising"
    using C8_strong_trends[of three_rising] h p by (simp add: list_all_iff)
  have v: "strong_trends (analyze three_rising)
       = [(JStr ''Y'', 1, 1), (JStr ''Z'', 3, 2), (JStr ''X'', 2, 3)]"
    by (simp add: analyze_def strong_trends_rows_def nlargest_def trend_consistency_def
          three_rising_def quote_row_def)
  from h p m v show ?thesis by blast
qed

section \<open>Properties of the snapshot, the cycle and the loop\<close>














lemma convert_listing_AAA:
  "convert_coin (listing 1 ''AAA'' 10 5 2)
     = Inr \<lparr>cd_id = JNum 1, cd_name = JStr ''AAA'', cd_symbol = JStr ''AAA'', cd_price = JNum 1,
            cd_market_cap = JNum 10, cd_volume_24h = JNum 5, cd_percent_change_1h = JNum 2,
            cd_percent_change_24h = JNum 2, cd_percent_change_7d = JNum 2,
            cd_volume_to_market_cap = 1 / 2\<rparr>"
  by (simp add: convert_coin_def listing_def quote_usd_def raising_def
        volume_to_market_cap_expr_def py_div_def)

lemma convert_broken_listing: "convert_coin broken_listing = Inl KeyError"
  by (simp add: convert_coin_def broken_listing_def quote_usd_def raising_def)

lemma convert_partial_payload: "convert_to_dataframe (Some partial_payload) = Inl KeyError"
  by (simp add: convert_to_dataframe_def partial_payload_def convert_listing_AAA
        convert_broken_listing raising_def)

lemma fetch_partial_env: "get_crypto_data (fetch partial_env) = Some partial_payload"
  by (simp add: get_crypto_data_def partial_env_def quiet_env_def partial_payload_def)

lemma db_values_listing:
  "db_values (listing i s cap vol chg) t
     = Inr \<lparr>row_id = JNum i, row_symbol = JStr s, row_name = JStr s, row_price = JNum 1,
            row_market_cap = JNum cap, row_volume_24h = JNum vol,
            row_percent_change_1h = JNum chg, row_percent_change_24h = JNum chg,
            row_percent_change_7d = JNum chg, row_timestamp = t\<rparr>"
  by (simp add: db_values_def listing_def quote_usd_def raising_def)

lemma db_values_broken_listing: "db_values broken_listing t = Inl KeyError"
  by (simp add: db_values_def broken_listing_def quote_usd_def raising_def)

lemma save_partial_payload:
  assumes "insert_ok e = (\<lambda>rows r. True)" and "db_ok e"
  shows "save_data_to_db e (Some partial_payload) w
      = (None, w\<lparr>crypto_data := crypto_data w @
            [\<lparr>row_id = JNum 1, row_symbol = JStr ''AAA'', row_name = JStr ''AAA'',
               row_price = JNum 1, row_market_cap = JNum 10, row_volume_24h = JNum 5,
               row_percent_change_1h = JNum 2, row_percent_change_24h = JNum 2,
               row_percent_change_7d = JNum 2, row_timestamp = now_iso e\<rparr>,
             \<lparr>row_id = JNum 3, row_symbol = JStr ''BBB'', row_name = JStr ''BBB'',
               row_price = JNum 1, row_market_cap = JNum 0, row_volume_24h = JNum 5,
               row_percent_change_1h = JNum (-3), row_percent_change_24h = JNum (-3),
               row_percent_change_7d = JNum (-3), row_timestamp = now_iso e\<rparr>],
          errors_logged := errors_logged w @ [SaveFailed]\<rparr>)"
proof -
  have s2: "getitem broken_listing ''symbol'' = Inr (JStr ''BRK'')"
    by (simp add: broken_listing_def)
  show ?thesis
    by (simp add: save_data_to_db_def partial_payload_def assms db_values_listing
          db_values_broken_listing s2 raising_def)
qed

lemma partial_env_fields:
  "insert_ok partial_env = (\<lambda>rows r. True)" "db_ok partial_env" "archive_ok partial_env"
  "fetch_interval partial_env = 3600" "\<not> interrupted partial_env"
  by (simp_all add: partial_env_def quiet_env_def)

lemma cycle_partial_env:
  "fst (process_crypto_data partial_env w) = Some KeyError
   \<and> sent (snd (process_crypto_data partial_env w)) = sent w
   \<and> slept (snd (process_crypto_data partial_env w)) = slept w
   \<and> errors_logged (snd (process_crypto_data partial_env w)) = errors_logged w @ [SaveFailed]"
proof -
  have nd: "\<not> no_data (Some partial_payload)" by (simp add: no_data_def partial_payload_def)
  have raw: "save_raw_data partial_env (Some partial_payload) w
       = (None, w\<lparr>raw_files := raw_files w @
            [(data_dir partial_env @ ''/crypto_data_'' @ now_stamp partial_env @ ''.json'',
              partial_payload)]\<rparr>)"
    by (simp add: save_raw_data_def partial_payload_def partial_env_fields)
  show ?thesis
    by (simp add: process_crypto_data_def fetch_partial_env nd raw
          save_partial_payload[OF partial_env_fields(1,2)] convert_partial_payload)
qed

text \<open>
  Claim C4 says that a field-access failure on one asset is caught while the snapshot is
  built, so that only this asset is skipped. On the payload whose second asset lacks
  \<open>market_cap\<close>, \<open>convert_to_dataframe\<close> raises KeyError and the cycle ends with this
  exception before anything is sent; \<open>save_data_to_db\<close>, on the same payload, skips the
  second asset only and stores the two others.
\<close>

theorem C4_dataframe_aborts_on_broken_asset:
  "convert_to_dataframe (Some partial_payload) = Inl KeyError
   \<and> get_crypto_data (fetch partial_env) = Some partial_payload
   \<and> fst (process_crypto_data partial_env empty_world) = Some KeyError
   \<and> sent (snd (process_crypto_data partial_env empty_world)) = []
   \<and> fst (save_data_to_db quiet_env (Some partial_payload) empty_world) = None
   \<and> map row_symbol (crypto_data (snd (save_data_to_db quiet_env (Some partial_payload) empty_world)))
       = [JStr ''AAA'', JStr ''BBB'']"
proof -
  have q: "insert_ok quiet_env = (\<lambda>rows r. True)" "db_ok quiet_env"
    by (simp_all add: quiet_env_def)
  from convert_partial_payload fetch_partial_env cycle_partial_env[of empty_world]
    save_partial_payload[OF q, of empty_world]
  show ?thesis by (simp add: empty_world_def)
qed

lemma fetch_500: "get_crypto_data (HttpResponse 500 body) = None"
  by (simp add: get_crypto_data_def)

text \<open>
  Claim C1 says that a failed fetch skips the cycle without store writes, with exactly one
  warning notification. With a response of status 500, or no connection,
  \<open>process_crypto_data\<close> returns normally and changes nothing but the log: no row, no raw
  file, and no request to Telegram either. The test script \<open>test_main\<close> sends one warning
  in the same situation.
\<close>

theorem C1_fetch_failure_is_not_notified:
  "process_crypto_data (e\<lparr>fetch := HttpResponse 500 body\<rparr>) w
     = (None, w\<lparr>errors_logged := errors_logged w @ [FetchSkipped]\<rparr>)
   \<and> process_crypto_data (e\<lparr>fetch := ConnectionFailed\<rparr>) w
     = (None, w\<lparr>errors_logged := errors_logged w @ [FetchSkipped]\<rparr>)
   \<and> sent (snd (process_crypto_data (e\<lparr>fetch := HttpResponse 500 body\<rparr>) w)) = sent w
   \<and> crypto_data (snd (process_crypto_data (e\<lparr>fetch := HttpResponse 500 body\<rparr>) w)) = crypto_data w
   \<and> raw_files (snd (process_crypto_data (e\<lparr>fetch := HttpResponse 500 body\<rparr>) w)) = raw_files w
   \<and> sent (snd (test_main (e\<lparr>fetch := HttpResponse 500 body\<rparr>) w))
       = sent w @ [SendMessage fetch_warning]"
  by (simp add: process_crypto_data_def test_main_def get_crypto_data_def no_data_def
        test_send_message_to_telegram_def post_def finish_snd_sent)

lemma main_loop_never_crashes: "fst (main_loop n envs k w) \<noteq> Crashed err"
  by (induction n arbitrary: k w) (auto simp: Let_def split: prod.splits option.splits)

text \<open>
  Claim C9 says that no exception of a cycle ends the process, the first cycle included.
  When the first cycle raises (here KeyError, on the payload with a broken asset) \<open>main\<close>
  ends with that exception, whatever the number of iterations allowed. The same failure in a
  later cycle is logged and followed by a sleep of 60 seconds, and the loop itself never
  ends with an exception.
\<close>

theorem C9_first_cycle_is_unprotected:
  "fst (main n (\<lambda>k. partial_env) empty_world) = Crashed KeyError
   \<and> fst (main_loop (Suc 0) (\<lambda>k. partial_env) 1 empty_world) = Running
   \<and> slept (snd (main_loop (Suc 0) (\<lambda>k. partial_env) 1 empty_world)) = [3600, 60]
   \<and> errors_logged (snd (main_loop (Suc 0) (\<lambda>k. partial_env) 1 empty_world))
       = [SaveFailed, LoopError KeyError]
   \<and> (\<forall>n envs k w err. fst (main_loop n envs k w) \<noteq> Crashed err)"
proof -
  have a: "fst (main n (\<lambda>k. partial_env) empty_world) = Crashed KeyError"
    using cycle_partial_env[of empty_world]
    by (auto simp: main_def partial_env_fields split: prod.splits option.splits)
  let ?w1 = "empty_world\<lparr>slept := slept empty_world @ [fetch_interval partial_env]\<rparr>"
  have b: "fst (main_loop (Suc 0) (\<lambda>k. partial_env) 1 empty_world) = Running
   \<and> slept (snd (main_loop (Suc 0) (\<lambda>k. partial_env) 1 empty_world)) = [3600, 60]
   \<and> errors_logged (snd (main_loop (Suc 0) (\<lambda>k. partial_env) 1 empty_world))
       = [SaveFailed, LoopError KeyError]"
    using cycle_partial_env[of ?w1]
    by (auto simp: Let_def partial_env_fields empty_world_def split: prod.splits option.splits)
  from a b main_loop_never_crashes show ?thesis by blast
qed

end
